theory Spec2Isabelle
  imports Main
begin

section \<open>Strings and formatting\<close>

text \<open>
  Go strings are byte sequences; they are modelled as \<open>string\<close> (a list of 8-bit
  characters). The non-ASCII glyphs of the source are written out as their UTF-8 bytes.
\<close>

definition nl :: string where
  "nl = [CHR 0x0A]"

definition clipboard :: string where
  \<comment> \<open>U+1F4CB\<close>
  "clipboard = [CHR 0xF0, CHR 0x9F, CHR 0x93, CHR 0x8B]"

definition open_book :: string where
  \<comment> \<open>U+1F4D6\<close>
  "open_book = [CHR 0xF0, CHR 0x9F, CHR 0x93, CHR 0x96]"

definition warning_sign :: string where
  \<comment> \<open>U+26A0 U+FE0F\<close>
  "warning_sign = [CHR 0xE2, CHR 0x9A, CHR 0xA0, CHR 0xEF, CHR 0xB8, CHR 0x8F]"

definition cross_mark :: string where
  \<comment> \<open>U+274C\<close>
  "cross_mark = [CHR 0xE2, CHR 0x9D, CHR 0x8C]"

definition check_mark :: string where
  \<comment> \<open>U+2713\<close>
  "check_mark = [CHR 0xE2, CHR 0x9C, CHR 0x93]"


definition HasPrefix :: "string \<Rightarrow> string \<Rightarrow> bool" where
  \<comment> \<open>strings.HasPrefix\<close>
  "HasPrefix s p = (take (length p) s = p)"

definition HasSuffix :: "string \<Rightarrow> string \<Rightarrow> bool" where
  \<comment> \<open>strings.HasSuffix\<close>
  "HasSuffix s x = (length x \<le> length s \<and> drop (length s - length x) s = x)"

fun Contains :: "string \<Rightarrow> string \<Rightarrow> bool" where
  \<comment> \<open>strings.Contains, as the tests' assert.Contains uses it\<close>
  "Contains [] sub = (sub = [])"
| "Contains (ch # s) sub = (HasPrefix (ch # s) sub \<or> Contains s sub)"

function itoa :: "nat \<Rightarrow> string" where
  "itoa n = (if n < 10 then [char_of (48 + n)] else itoa (n div 10) @ [char_of (48 + n mod 10)])"
  by pat_completeness auto
termination
  by (relation "measure (\<lambda>n. n)") auto

declare itoa.simps [simp del]

definition fmt_d :: "int \<Rightarrow> string" where
  \<comment> \<open>the verb %d of package fmt on an int\<close>
  "fmt_d i = (if i < 0 then ''-'' @ itoa (nat (- i)) else itoa (nat i))"

section \<open>Errors\<close>

text \<open>
  A Go \<open>error\<close> value. \<open>ErrNotExist\<close> is an error of package os for which
  \<open>os.IsNotExist\<close> holds; \<open>ErrorString\<close> is \<open>errors.New\<close>, a \<open>fmt.Errorf\<close> without
  the verb %w, or any other library error; \<open>WrapError p e\<close> is
  \<open>fmt.Errorf(p + "%w", e)\<close>.
\<close>

datatype error =
    ErrNotExist string
  | ErrorString string
  | WrapError string error

fun Error :: "error \<Rightarrow> string" where
  "Error (ErrNotExist m) = m"
| "Error (ErrorString m) = m"
| "Error (WrapError p e) = p @ Error e"

fun Unwrap :: "error \<Rightarrow> error option" where
  "Unwrap (WrapError p e) = Some e"
| "Unwrap _ = None"

fun IsNotExist :: "error \<Rightarrow> bool" where
  \<comment> \<open>os.IsNotExist does not look through fmt's wrapping\<close>
  "IsNotExist (ErrNotExist m) = True"
| "IsNotExist _ = False"

section \<open>Data model\<close>

record ServerJSON =
  Schema :: string
  Name :: string
  Description :: string
  Version :: string

record ServerResponse =
  Server :: ServerJSON

record ValidationIssue =
  Type :: string
  Path :: string
  Message :: string
  Severity :: string
  Reference :: string

record ValidationResult =
  Valid :: bool
  Issues :: "ValidationIssue list"

record Request =
  Method :: string
  URL :: string
  Header :: "(string \<times> string) list"
  Body :: string

record Response =
  StatusCode :: int
  ReadAll :: "error + string"

text \<open>
  The constants that the commands use and that are declared elsewhere in the repository
  (\<open>TokenFileName\<close>, \<open>DefaultRegistryURL\<close>, \<open>model.CurrentSchemaURL\<close>,
  \<open>validators.ValidationIssueSeverityWarning\<close>) are parameters of the model.
\<close>

record constants =
  TokenFileName :: string
  DefaultRegistryURL :: string
  CurrentSchemaURL :: string
  ValidationIssueSeverityWarning :: string

text \<open>
  The environment of one command invocation: the file system, the home directory, the
  JSON codec of the standard library on each Go type it is used at, request construction
  (\<open>http.NewRequestWithContext\<close> fails only when the URL does not parse) and the HTTP
  round trip of \<open>client.Do\<close>.
\<close>

record world =
  ReadFile :: "string \<Rightarrow> error + string"
  UserHomeDir :: "error + string"
  Join :: "string \<Rightarrow> string \<Rightarrow> string"
  UnmarshalServerJSON :: "string \<Rightarrow> error + ServerJSON"
  MarshalServerJSON :: "ServerJSON \<Rightarrow> error + string"
  UnmarshalTokenInfo :: "string \<Rightarrow> error + (string \<rightharpoonup> string)"
  UnmarshalServerResponse :: "string \<Rightarrow> error + ServerResponse"
  UnmarshalValidationResult :: "string \<Rightarrow> error + ValidationResult"
  NewRequestError :: "string \<Rightarrow> error option"
  Do :: "Request \<Rightarrow> error + Response"

definition index :: "(string \<rightharpoonup> string) \<Rightarrow> string \<Rightarrow> string" where
  \<comment> \<open>m[k] on a map[string]string: the zero value when the key is missing\<close>
  "index m k = (case m k of None \<Rightarrow> [] | Some v \<Rightarrow> v)"

abbreviation StatusOK :: int where "StatusOK \<equiv> 200"
abbreviation StatusCreated :: int where "StatusCreated \<equiv> 201"
abbreviation StatusUnprocessableEntity :: int where "StatusUnprocessableEntity \<equiv> 422"

section \<open>validate.go: the formatter\<close>

definition migrationURL :: string where
  "migrationURL =
     ''https://github.com/modelcontextprotocol/registry/blob/main/docs/reference/server-json/CHANGELOG.md''"

definition checklistURL :: string where
  "checklistURL = migrationURL @ ''#migration-checklist-for-publishers''"

text \<open>
  Every function returns, next to its Go result, the chunks it wrote to standard output,
  one chunk for each call of \<open>Fprintf\<close> or \<open>Fprintln\<close>, in order.
\<close>

fun schemaIssuesLoop :: "constants \<Rightarrow> ServerJSON \<Rightarrow> ValidationIssue list \<Rightarrow> string \<times> string list" where
  "schemaIssuesLoop c serverJSON [] = ([], [])"
| "schemaIssuesLoop c serverJSON (issue # rest) =
     (if Reference issue = ''schema-field-required'' then
        (''$schema field is required. Expected current schema: '' @ CurrentSchemaURL c @ ''. ''
           @ clipboard @ '' Migration checklist: '' @ checklistURL @ '' ''
           @ open_book @ '' Full changelog with examples: '' @ migrationURL,
         [''$schema field is required.'' @ nl,
          nl,
          ''Expected current schema: '' @ CurrentSchemaURL c @ nl,
          nl,
          ''Run 'mcp-publisher init' to create a new server.json with the correct schema, or update your existing server.json file.'' @ nl,
          nl,
          clipboard @ '' Migration checklist: '' @ checklistURL @ nl,
          open_book @ '' Full changelog with examples: '' @ migrationURL @ nl,
          nl])
      else if Reference issue = ''schema-version-deprecated'' then
        (Message issue @ ''. deprecated schema detected: '' @ Schema serverJSON
           @ ''. Expected current schema: '' @ CurrentSchemaURL c
           @ ''. Migrate to the current schema format for new servers. ''
           @ clipboard @ '' Migration checklist: '' @ checklistURL @ '' ''
           @ open_book @ '' Full changelog with examples: '' @ migrationURL,
         [if Severity issue = ValidationIssueSeverityWarning c
          then warning_sign @ ''  Deprecated schema detected: '' @ Schema serverJSON @ nl
          else ''deprecated schema detected: '' @ Schema serverJSON @ ''.'' @ nl,
          nl,
          ''Expected current schema: '' @ CurrentSchemaURL c @ nl,
          nl,
          ''Migrate to the current schema format for new servers.'' @ nl,
          nl,
          clipboard @ '' Migration checklist: '' @ checklistURL @ nl,
          open_book @ '' Full changelog with examples: '' @ migrationURL @ nl,
          nl])
      else if Reference issue = ''schema-version-extraction-error'' then
        (Message issue @ ''. '' @ clipboard @ '' Migration checklist: '' @ checklistURL @ '' ''
           @ open_book @ '' Full changelog with examples: '' @ migrationURL,
         [])
      else schemaIssuesLoop c serverJSON rest)"

definition printSchemaValidationErrors ::
  "constants \<Rightarrow> ValidationResult \<Rightarrow> ServerJSON \<Rightarrow> string \<times> string list" where
  "printSchemaValidationErrors c result serverJSON = schemaIssuesLoop c serverJSON (Issues result)"

text \<open>The second loop of \<open>printValidationIssues\<close>, with its counter \<open>issueNum\<close>.\<close>

fun otherIssuesLoop :: "nat \<Rightarrow> ValidationIssue list \<Rightarrow> string list" where
  "otherIssuesLoop issueNum [] = []"
| "otherIssuesLoop issueNum (issue # rest) =
     (if Reference issue = ''schema-field-required'' \<or> Reference issue = ''schema-version-deprecated''
      then otherIssuesLoop issueNum rest
      else [fmt_d (int issueNum) @ ''. ['' @ Severity issue @ ''] '' @ Path issue
              @ '' ('' @ Type issue @ '')'' @ nl,
            ''   '' @ Message issue @ nl]
           @ (if Reference issue \<noteq> [] then [''   Reference: '' @ Reference issue @ nl] else [])
           @ [nl]
           @ otherIssuesLoop (issueNum + 1) rest)"

definition printValidationIssues ::
  "constants \<Rightarrow> ValidationResult \<Rightarrow> ServerJSON \<Rightarrow> string \<times> string list" where
  "printValidationIssues c result serverJSON =
     (let (formattedErrorMsg, out1) = printSchemaValidationErrors c result serverJSON in
      if Valid result then (formattedErrorMsg, out1)
      else (formattedErrorMsg,
            out1
            @ [cross_mark @ '' Validation failed with '' @ fmt_d (int (length (Issues result)))
                 @ '' issue(s):'' @ nl,
               nl]
            @ otherIssuesLoop 1 (Issues result)))"

section \<open>The registry client\<close>

text \<open>
  \<open>publishToRegistry\<close> returns the response, the status code and the error of the Go
  function, and with them the requests it handed to \<open>client.Do\<close>.
\<close>

definition publishToRegistry ::
  "world \<Rightarrow> string \<Rightarrow> string \<Rightarrow> string
     \<Rightarrow> (ServerResponse option \<times> int \<times> error option) \<times> Request list" where
  "publishToRegistry w registryURL serverData token =
     (case UnmarshalServerJSON w serverData of
        Inl err \<Rightarrow> ((None, 0, Some (WrapError ''error parsing server.json file: '' err)), [])
      | Inr serverJSON \<Rightarrow>
     (case MarshalServerJSON w serverJSON of
        Inl err \<Rightarrow> ((None, 0, Some (WrapError ''error serializing request: '' err)), [])
      | Inr jsonData \<Rightarrow>
     (let registryURL' = (if \<not> HasSuffix registryURL ''/'' then registryURL @ ''/'' else registryURL);
          publishURL = registryURL' @ ''v0/publish''
      in case NewRequestError w publishURL of
        Some err \<Rightarrow> ((None, 0, Some (WrapError ''error creating request: '' err)), [])
      | None \<Rightarrow>
     (let req = \<lparr>Method = ''POST'', URL = publishURL,
                  Header = [(''Content-Type'', ''application/json''),
                            (''Authorization'', ''Bearer '' @ token)],
                  Body = jsonData\<rparr>
      in case Do w req of
        Inl err \<Rightarrow> ((None, 0, Some (WrapError ''error sending request: '' err)), [req])
      | Inr resp \<Rightarrow>
     (case ReadAll resp of
        Inl err \<Rightarrow>
          ((None, StatusCode resp, Some (WrapError ''error reading response: '' err)), [req])
      | Inr body \<Rightarrow>
          if StatusCode resp \<noteq> StatusCreated \<and> StatusCode resp \<noteq> StatusOK then
            ((None, StatusCode resp,
              Some (ErrorString (''server returned status '' @ fmt_d (StatusCode resp) @ '': '' @ body))),
             [req])
          else
            (case UnmarshalServerResponse w body of
               Inl err \<Rightarrow> ((None, StatusCode resp, Some err), [req])
             | Inr serverResponse \<Rightarrow> ((Some serverResponse, StatusCode resp, None), [req])))))))"

definition validateViaAPI ::
  "world \<Rightarrow> string \<Rightarrow> string \<Rightarrow> (error + ValidationResult) \<times> Request list" where
  "validateViaAPI w registryURL serverData =
     (case UnmarshalServerJSON w serverData of
        Inl err \<Rightarrow> (Inl (WrapError ''error parsing server.json file: '' err), [])
      | Inr serverJSON \<Rightarrow>
     (case MarshalServerJSON w serverJSON of
        Inl err \<Rightarrow> (Inl (WrapError ''error serializing request: '' err), [])
      | Inr jsonData \<Rightarrow>
     (let registryURL' = (if \<not> HasSuffix registryURL ''/'' then registryURL @ ''/'' else registryURL);
          validateURL = registryURL' @ ''v0/validate''
      in case NewRequestError w validateURL of
        Some err \<Rightarrow> (Inl (WrapError ''error creating request: '' err), [])
      | None \<Rightarrow>
     (let req = \<lparr>Method = ''POST'', URL = validateURL,
                  Header = [(''Content-Type'', ''application/json'')],
                  Body = jsonData\<rparr>
      in case Do w req of
        Inl err \<Rightarrow> (Inl (WrapError ''error sending request: '' err), [req])
      | Inr resp \<Rightarrow>
     (case ReadAll resp of
        Inl err \<Rightarrow> (Inl (WrapError ''error reading response: '' err), [req])
      | Inr body \<Rightarrow>
          if StatusCode resp \<noteq> StatusOK then
            (Inl (ErrorString (''server returned status '' @ fmt_d (StatusCode resp) @ '': '' @ body)),
             [req])
          else
            (case UnmarshalValidationResult w body of
               Inl err \<Rightarrow> (Inl (WrapError ''error parsing response: '' err), [req])
             | Inr result \<Rightarrow> (Inr result, [req])))))))"

section \<open>The commands\<close>

text \<open>
  A command returns its error (\<open>None\<close> for Go's \<open>nil\<close>), the chunks written to
  standard output and the requests handed to \<open>client.Do\<close>, both in order.
\<close>

type_synonym outcome = "error option \<times> string list \<times> Request list"

definition publishServerFile :: "string list \<Rightarrow> string" where
  \<comment> \<open>the first statements of PublishCommand: the file named by the first argument, if any\<close>
  "publishServerFile args =
     (case args of
        [] \<Rightarrow> ''server.json''
      | a # _ \<Rightarrow> if \<not> HasPrefix a ''-'' then a else ''server.json'')"

definition PublishCommand :: "world \<Rightarrow> constants \<Rightarrow> string list \<Rightarrow> outcome" where
  "PublishCommand w c args =
     (let serverFile = publishServerFile args
      in case ReadFile w serverFile of
        Inl err \<Rightarrow>
          if IsNotExist err
          then (Some (ErrorString ''server.json not found. Run 'mcp-publisher init' to create one''), [], [])
          else (Some (WrapError ''failed to read server.json: '' err), [], [])
      | Inr serverData \<Rightarrow>
     (case UnmarshalServerJSON w serverData of
        Inl err \<Rightarrow> (Some (WrapError ''invalid server.json: '' err), [], [])
      | Inr serverJSON \<Rightarrow>
     (case UserHomeDir w of
        Inl err \<Rightarrow> (Some (WrapError ''failed to get home directory: '' err), [], [])
      | Inr homeDir \<Rightarrow>
     (case ReadFile w (Join w homeDir (TokenFileName c)) of
        Inl err \<Rightarrow>
          if IsNotExist err
          then (Some (ErrorString ''not authenticated. Run 'mcp-publisher login <method>' first''), [], [])
          else (Some (WrapError ''failed to read token: '' err), [], [])
      | Inr tokenData \<Rightarrow>
     (case UnmarshalTokenInfo w tokenData of
        Inl err \<Rightarrow> (Some (WrapError ''invalid token data: '' err), [], [])
      | Inr tokenInfo \<Rightarrow>
     (let token = index tokenInfo ''token'';
          registryURL = (if index tokenInfo ''registry'' = [] then DefaultRegistryURL c
                         else index tokenInfo ''registry'');
          out0 = [''Publishing to '' @ registryURL @ ''...'' @ nl]
      in case publishToRegistry w registryURL serverData token of
        ((response, statusCode, Some err), sent1) \<Rightarrow>
          if statusCode = StatusUnprocessableEntity then
            (let out1 = out0 @ [''Validation failed. Checking detailed validation errors...'' @ nl, nl]
             in case validateViaAPI w registryURL serverData of
               (Inl validateErr, sent2) \<Rightarrow>
                 (Some (WrapError ''publish failed: '' err), out1, sent1 @ sent2)
             | (Inr result, sent2) \<Rightarrow>
                 (let (formattedErrorMsg, out2) = printValidationIssues c result serverJSON
                  in if \<not> Valid result then
                       if formattedErrorMsg \<noteq> []
                       then (Some (ErrorString formattedErrorMsg), out1 @ out2, sent1 @ sent2)
                       else (Some (ErrorString ''validation failed''), out1 @ out2, sent1 @ sent2)
                     else (Some (WrapError ''publish failed: '' err), out1 @ out2, sent1 @ sent2)))
          else (Some (WrapError ''publish failed: '' err), out0, sent1)
      | ((response, statusCode, None), sent1) \<Rightarrow>
          (None,
           out0 @ [check_mark @ '' Successfully published'' @ nl,
                   check_mark @ '' Server '' @ Name (Server (the response)) @ '' version ''
                     @ Version (Server (the response)) @ nl],
           sent1)))))))"




section \<open>The specification's vocabulary\<close>

text \<open>
  The definitions of this section follow the words of the specification, not the code;
  the theorems below compare the code with them.
\<close>

definition schemaReferences :: "string list" where
  "schemaReferences =
     [''schema-field-required'', ''schema-version-deprecated'', ''schema-version-extraction-error'']"

definition isSchemaIssue :: "ValidationIssue \<Rightarrow> bool" where
  "isSchemaIssue issue = (Reference issue \<in> set schemaReferences)"

definition endsInSlash :: "string \<Rightarrow> bool" where
  "endsInSlash base = (base \<noteq> [] \<and> last base = CHR ''/'')"

definition endpointURL :: "string \<Rightarrow> string \<Rightarrow> string" where
  \<comment> \<open>the base, with a slash appended exactly when it does not end in one, then the suffix\<close>
  "endpointURL base suffix = (if endsInSlash base then base else base @ ''/'') @ suffix"

definition numberedEntry :: "nat \<Rightarrow> ValidationIssue \<Rightarrow> string list" where
  \<comment> \<open>one numbered entry: severity, path, type, message, and the reference code if present\<close>
  "numberedEntry n issue =
     [fmt_d (int n) @ ''. ['' @ Severity issue @ ''] '' @ Path issue @ '' ('' @ Type issue @ '')'' @ nl,
      ''   '' @ Message issue @ nl]
     @ (if Reference issue = [] then [] else [''   Reference: '' @ Reference issue @ nl])
     @ [nl]"

definition printedByFirstPass :: "ValidationIssue \<Rightarrow> bool" where
  \<comment> \<open>the references for which the first pass writes to standard output\<close>
  "printedByFirstPass issue =
     (Reference issue = ''schema-field-required'' \<or> Reference issue = ''schema-version-deprecated'')"

definition numberedList :: "ValidationIssue list \<Rightarrow> string list" where
  \<comment> \<open>the entries of the given issues in order, numbered from 1\<close>
  "numberedList issues =
     concat (map (\<lambda>(n, issue). numberedEntry n issue) (zip [1 ..< Suc (length issues)] issues))"

section \<open>Example inputs\<close>

definition ex_constants :: constants where
  "ex_constants =
     \<lparr>TokenFileName = ''.mcp_publisher_token'',
      DefaultRegistryURL = ''https://registry.example'',
      CurrentSchemaURL = ''https://static.modelcontextprotocol.io/schemas/2025-12-11/server.schema.json'',
      ValidationIssueSeverityWarning = ''warning''\<rparr>"

definition ex_serverJSON :: ServerJSON where
  "ex_serverJSON =
     \<lparr>Schema = ''https://static.modelcontextprotocol.io/schemas/2025-07-09/server.schema.json'',
      Name = ''com.example/test-server'',
      Description = ''A test server'',
      Version = ''1.0.0''\<rparr>"

text \<open>
  A mock registry as the tests set it up: \<open>server.json\<close> and the token file exist, the
  publish endpoint answers with the given status and the body \<open>rejected\<close>, the validate
  endpoint answers 200 with a body that decodes as given.
\<close>

definition ex_world :: "int \<Rightarrow> error + ValidationResult \<Rightarrow> world" where
  "ex_world publishStatus validation =
     \<lparr>ReadFile = (\<lambda>path. if path = ''server.json'' then Inr ''{descriptor}''
                         else if path = ''/home/u/.mcp_publisher_token'' then Inr ''{token}''
                         else Inl (ErrNotExist (''open '' @ path @ '': no such file or directory''))),
      UserHomeDir = Inr ''/home/u'',
      Join = (\<lambda>dir name. dir @ ''/'' @ name),
      UnmarshalServerJSON = (\<lambda>data. Inr ex_serverJSON),
      MarshalServerJSON = (\<lambda>serverJSON. Inr ''{canonical}''),
      UnmarshalTokenInfo = (\<lambda>data. Inr [''token'' \<mapsto> ''test-token'', ''registry'' \<mapsto> ''http://127.0.0.1:8080'']),
      UnmarshalServerResponse = (\<lambda>body. Inr \<lparr>Server = ex_serverJSON\<rparr>),
      UnmarshalValidationResult = (\<lambda>body. validation),
      NewRequestError = (\<lambda>url. None),
      Do = (\<lambda>req. if HasSuffix (URL req) ''v0/publish''
                    then Inr \<lparr>StatusCode = publishStatus, ReadAll = Inr ''rejected''\<rparr>
                    else Inr \<lparr>StatusCode = 200, ReadAll = Inr ''{result}''\<rparr>)\<rparr>"

definition ex_world_no_token :: world where
  \<comment> \<open>the same, without the token file\<close>
  "ex_world_no_token =
     (ex_world 201 (Inr \<lparr>Valid = True, Issues = []\<rparr>))
       \<lparr>ReadFile := (\<lambda>path. if path = ''server.json'' then Inr ''{descriptor}''
                           else Inl (ErrNotExist (''open '' @ path @ '': no such file or directory'')))\<rparr>"

definition ex_world_no_files :: world where
  \<comment> \<open>neither the descriptor file nor the token file exists\<close>
  "ex_world_no_files =
     (ex_world 201 (Inr \<lparr>Valid = True, Issues = []\<rparr>))
       \<lparr>ReadFile := (\<lambda>path. Inl (ErrNotExist (''open '' @ path @ '': no such file or directory'')))\<rparr>"

definition ex_deprecated :: ValidationIssue where
  "ex_deprecated =
     \<lparr>Type = ''semantic'', Path = ''schema'',
      Message = ''schema version 2025-07-09 is not the current version'',
      Severity = ''warning'', Reference = ''schema-version-deprecated''\<rparr>"

definition ex_required :: ValidationIssue where
  "ex_required =
     \<lparr>Type = ''schema'', Path = ''name'', Message = ''name is required'',
      Severity = ''error'', Reference = ''schema-field-required''\<rparr>"

definition ex_extraction :: ValidationIssue where
  "ex_extraction =
     \<lparr>Type = ''schema'', Path = ''schema'',
      Message = ''failed to extract schema version from URL'',
      Severity = ''error'', Reference = ''schema-version-extraction-error''\<rparr>"

definition ex_range :: ValidationIssue where
  "ex_range =
     \<lparr>Type = ''semantic'', Path = ''version'',
      Message = ''version must be a specific version, not a range'',
      Severity = ''error'', Reference = ''semantic-version-range''\<rparr>"

section \<open>Auxiliary facts\<close>

lemma HasPrefix_append: "HasPrefix (sub @ q) sub"
  by (simp add: HasPrefix_def)

lemma Contains_prefix: "Contains (sub @ q) sub"
proof (cases "sub @ q")
  case Nil
  then show ?thesis by simp
next
  case (Cons a list)
  have "HasPrefix (sub @ q) sub" by (rule HasPrefix_append)
  with Cons show ?thesis by simp
qed

lemma Contains_append: "Contains (p @ sub @ q) sub"
proof (induction p)
  case Nil
  show ?case using Contains_prefix by simp
next
  case (Cons a p)
  then show ?case by simp
qed

lemma ContainsI: "s = p @ sub @ q \<Longrightarrow> Contains s sub"
  using Contains_append by simp

lemma HasSuffix_slash: "HasSuffix base ''/'' = endsInSlash base"
proof (cases base rule: rev_cases)
  case Nil
  then show ?thesis by (simp add: HasSuffix_def endsInSlash_def)
next
  case (snoc ys y)
  then show ?thesis by (simp add: HasSuffix_def endsInSlash_def)
qed



lemma publishToRegistry_status:
  assumes "publishToRegistry w base serverData token = ((response, statusCode, e), sent)"
    and "statusCode \<noteq> 0"
  shows "\<exists>serverJSON jsonData.
           UnmarshalServerJSON w serverData = Inr serverJSON \<and>
           MarshalServerJSON w serverJSON = Inr jsonData \<and>
           sent = [\<lparr>Method = ''POST'', URL = endpointURL base ''v0/publish'',
                    Header = [(''Content-Type'', ''application/json''),
                              (''Authorization'', ''Bearer '' @ token)],
                    Body = jsonData\<rparr>]"
  using assms unfolding publishToRegistry_def endpointURL_def
  by (auto simp add: Let_def HasSuffix_slash split: sum.splits option.splits if_splits)

lemma validateViaAPI_called:
  assumes "UnmarshalServerJSON w serverData = Inr serverJSON"
    and "MarshalServerJSON w serverJSON = Inr jsonData"
    and "NewRequestError w (endpointURL base ''v0/validate'') = None"
  shows "snd (validateViaAPI w base serverData) =
           [\<lparr>Method = ''POST'', URL = endpointURL base ''v0/validate'',
             Header = [(''Content-Type'', ''application/json'')],
             Body = jsonData\<rparr>]"
  using assms unfolding validateViaAPI_def endpointURL_def
  by (cases "endsInSlash base") (simp_all add: Let_def HasSuffix_slash split: sum.splits)

lemma endpointURL_distinct: "endpointURL base ''v0/publish'' \<noteq> endpointURL base ''v0/validate''"
  by (simp add: endpointURL_def)

section \<open>URL normalisation\<close>



section \<open>The publish command\<close>

text \<open>
  C8, as stated, fails: when neither the token file nor the descriptor file exists, the
  publish command fails without any request, and its error is
  \<open>server.json not found. Run 'mcp-publisher init' to create one\<close>, which does not
  contain \<open>not authenticated\<close>. The descriptor file is read and decoded before the
  token file is looked at.
\<close>

theorem publish_no_token_counterexample:
  "UserHomeDir ex_world_no_files = Inr ''/home/u'' \<and>
   ReadFile ex_world_no_files (Join ex_world_no_files ''/home/u'' (TokenFileName ex_constants))
     = Inl (ErrNotExist ''open /home/u/.mcp_publisher_token: no such file or directory'') \<and>
   IsNotExist (ErrNotExist ''open /home/u/.mcp_publisher_token: no such file or directory'') \<and>
   PublishCommand ex_world_no_files ex_constants []
     = (Some (ErrorString ''server.json not found. Run 'mcp-publisher init' to create one''), [], []) \<and>
   \<not> Contains (Error (ErrorString ''server.json not found. Run 'mcp-publisher init' to create one''))
        ''not authenticated''"
  by code_simp

text \<open>
  C8, amended. When the token file does not exist, the publish command fails, writes
  nothing and hands no request to the HTTP client; when the descriptor file has been read
  and decoded (which the command does first), its error is
  \<open>not authenticated. Run 'mcp-publisher login <method>' first\<close>.
\<close>

theorem publish_no_token:
  assumes "UserHomeDir w = Inr homeDir"
    and "ReadFile w (Join w homeDir (TokenFileName c)) = Inl err"
    and "IsNotExist err"
  shows "(\<exists>e. PublishCommand w c args = (Some e, [], [])) \<and>
         (\<forall>serverData serverJSON.
            ReadFile w (publishServerFile args) = Inr serverData \<and>
            UnmarshalServerJSON w serverData = Inr serverJSON
            \<longrightarrow> (\<exists>e. fst (PublishCommand w c args) = Some e \<and>
                   Error e = ''not authenticated. Run 'mcp-publisher login <method>' first'' \<and>
                   Contains (Error e) ''not authenticated''))"
proof -
  let ?e = "ErrorString ''not authenticated. Run 'mcp-publisher login <method>' first''"
  have fails: "\<exists>e. PublishCommand w c args = (Some e, [], [])"
    using assms unfolding PublishCommand_def by (simp add: Let_def split: sum.splits)
  have named: "Contains (Error ?e) ''not authenticated''"
    by (simp add: HasPrefix_def)
  have "fst (PublishCommand w c args) = Some ?e"
    if "ReadFile w (publishServerFile args) = Inr serverData"
      and "UnmarshalServerJSON w serverData = Inr serverJSON"
    for serverData serverJSON
    using assms that unfolding PublishCommand_def by (simp add: Let_def)
  with fails named show ?thesis by auto
qed

theorem publish_no_token_witness:
  "PublishCommand ex_world_no_token ex_constants [] =
     (Some (ErrorString ''not authenticated. Run 'mcp-publisher login <method>' first''), [], []) \<and>
   (\<exists>e. fst (PublishCommand ex_world_no_token ex_constants []) = Some e \<and>
        Error e = ''not authenticated. Run 'mcp-publisher login <method>' first'' \<and>
        Contains (Error e) ''not authenticated'')"
proof -
  have h1: "ReadFile ex_world_no_token (publishServerFile []) = Inr ''{descriptor}''"
    by (simp add: ex_world_no_token_def ex_world_def publishServerFile_def)
  have h2: "UnmarshalServerJSON ex_world_no_token ''{descriptor}'' = Inr ex_serverJSON"
    by (simp add: ex_world_no_token_def ex_world_def)
  have h3: "UserHomeDir ex_world_no_token = Inr ''/home/u''"
    by (simp add: ex_world_no_token_def ex_world_def)
  have h4: "ReadFile ex_world_no_token (Join ex_world_no_token ''/home/u'' (TokenFileName ex_constants))
              = Inl (ErrNotExist ''open /home/u/.mcp_publisher_token: no such file or directory'')"
    by (simp add: ex_world_no_token_def ex_world_def ex_constants_def)
  have h5: "IsNotExist (ErrNotExist ''open /home/u/.mcp_publisher_token: no such file or directory'')"
    by simp
  have run: "PublishCommand ex_world_no_token ex_constants [] =
     (Some (ErrorString ''not authenticated. Run 'mcp-publisher login <method>' first''), [], [])"
    by code_simp
  from publish_no_token [OF h3 h4 h5, of "[]"] h1 h2 run
  show ?thesis by blast
qed

text \<open>
  C7. When the publish attempt fails with an HTTP status other than 422 (a status other
  than 0 was returned, so a response was received), the command has handed exactly one
  request to the HTTP client, the publish request; no request targets the validate
  endpoint; the command's error wraps the error of the publish attempt and its text
  contains \<open>publish failed\<close>.
\<close>

theorem publish_non_422:
  assumes "ReadFile w (publishServerFile args) = Inr serverData"
    and "UnmarshalServerJSON w serverData = Inr serverJSON"
    and "UserHomeDir w = Inr homeDir"
    and "ReadFile w (Join w homeDir (TokenFileName c)) = Inr tokenData"
    and "UnmarshalTokenInfo w tokenData = Inr tokenInfo"
    and "token = index tokenInfo ''token''"
    and "registryURL = (if index tokenInfo ''registry'' = [] then DefaultRegistryURL c
                        else index tokenInfo ''registry'')"
    and pub: "publishToRegistry w registryURL serverData token = ((response, statusCode, Some err), sent1)"
    and "statusCode \<noteq> StatusUnprocessableEntity"
    and received: "statusCode \<noteq> 0"
  shows "\<exists>e req. PublishCommand w c args = (Some e, [''Publishing to '' @ registryURL @ ''...'' @ nl], [req]) \<and>
           URL req = endpointURL registryURL ''v0/publish'' \<and>
           URL req \<noteq> endpointURL registryURL ''v0/validate'' \<and>
           Unwrap e = Some err \<and>
           Error e = ''publish failed: '' @ Error err \<and>
           Contains (Error e) ''publish failed''"
proof -
  let ?e = "WrapError ''publish failed: '' err"
  have cmd: "PublishCommand w c args = (Some ?e, [''Publishing to '' @ registryURL @ ''...'' @ nl], sent1)"
    using assms unfolding PublishCommand_def by (simp add: Let_def)
  obtain req where sent: "sent1 = [req]" and url: "URL req = endpointURL registryURL ''v0/publish''"
    using publishToRegistry_status [OF pub received] by auto
  have "Contains (Error ?e) ''publish failed''"
    by (simp add: HasPrefix_def)
  with cmd sent url show ?thesis
    using endpointURL_distinct [of registryURL] by simp
qed

theorem publish_non_422_witness:
  "\<exists>e req. PublishCommand (ex_world 401 (Inr \<lparr>Valid = True, Issues = []\<rparr>)) ex_constants []
             = (Some e, [''Publishing to '' @ ''http://127.0.0.1:8080'' @ ''...'' @ nl], [req]) \<and>
           URL req = endpointURL ''http://127.0.0.1:8080'' ''v0/publish'' \<and>
           URL req \<noteq> endpointURL ''http://127.0.0.1:8080'' ''v0/validate'' \<and>
           Unwrap e = Some (ErrorString ''server returned status 401: rejected'') \<and>
           Error e = ''publish failed: '' @ Error (ErrorString ''server returned status 401: rejected'') \<and>
           Contains (Error e) ''publish failed''"
proof -
  let ?w = "ex_world 401 (Inr \<lparr>Valid = True, Issues = []\<rparr>)"
  let ?info = "[''token'' \<mapsto> ''test-token'', ''registry'' \<mapsto> ''http://127.0.0.1:8080'']"
  let ?req = "\<lparr>Method = ''POST'', URL = ''http://127.0.0.1:8080/v0/publish'',
               Header = [(''Content-Type'', ''application/json''), (''Authorization'', ''Bearer test-token'')],
               Body = ''{canonical}''\<rparr>"
  have h1: "ReadFile ?w (publishServerFile []) = Inr ''{descriptor}''"
    by (simp add: ex_world_def publishServerFile_def)
  have h2: "UnmarshalServerJSON ?w ''{descriptor}'' = Inr ex_serverJSON"
    by (simp add: ex_world_def)
  have h3: "UserHomeDir ?w = Inr ''/home/u''"
    by (simp add: ex_world_def)
  have h4: "ReadFile ?w (Join ?w ''/home/u'' (TokenFileName ex_constants)) = Inr ''{token}''"
    by (simp add: ex_world_def ex_constants_def)
  have h5: "UnmarshalTokenInfo ?w ''{token}'' = Inr ?info"
    by (simp add: ex_world_def)
  have h6: "''test-token'' = index ?info ''token''"
    by (simp add: index_def)
  have h7: "''http://127.0.0.1:8080'' = (if index ?info ''registry'' = [] then DefaultRegistryURL ex_constants
                                          else index ?info ''registry'')"
    by (simp add: index_def)
  have h8: "publishToRegistry ?w ''http://127.0.0.1:8080'' ''{descriptor}'' ''test-token''
              = ((None, 401, Some (ErrorString ''server returned status 401: rejected'')), [?req])"
    by code_simp
  have h9: "(401::int) \<noteq> StatusUnprocessableEntity" by simp
  have h10: "(401::int) \<noteq> 0" by simp
  show ?thesis
    by (rule publish_non_422 [OF h1 h2 h3 h4 h5 h6 h7 h8 h9 h10])
qed

text \<open>
  C4. In the 422 fallback, when the validate call returns an error, the command's error
  is the error of the publish attempt wrapped as \<open>publish failed: ...\<close>; the error of
  the validate call does not appear in it.
\<close>

theorem publish_validate_error:
  assumes "ReadFile w (publishServerFile args) = Inr serverData"
    and "UnmarshalServerJSON w serverData = Inr serverJSON"
    and "UserHomeDir w = Inr homeDir"
    and "ReadFile w (Join w homeDir (TokenFileName c)) = Inr tokenData"
    and "UnmarshalTokenInfo w tokenData = Inr tokenInfo"
    and "token = index tokenInfo ''token''"
    and "registryURL = (if index tokenInfo ''registry'' = [] then DefaultRegistryURL c
                        else index tokenInfo ''registry'')"
    and "publishToRegistry w registryURL serverData token
           = ((response, StatusUnprocessableEntity, Some err), sent1)"
    and "validateViaAPI w registryURL serverData = (Inl validateErr, sent2)"
  shows "fst (PublishCommand w c args) = Some (WrapError ''publish failed: '' err) \<and>
         Unwrap (WrapError ''publish failed: '' err) = Some err \<and>
         Error (WrapError ''publish failed: '' err) = ''publish failed: '' @ Error err"
  using assms unfolding PublishCommand_def
  by (simp add: Let_def)

theorem publish_validate_error_witness:
  "fst (PublishCommand (ex_world 422 (Inl (ErrorString ''unexpected end of JSON input''))) ex_constants [])
     = Some (WrapError ''publish failed: '' (ErrorString ''server returned status 422: rejected'')) \<and>
   fst (validateViaAPI (ex_world 422 (Inl (ErrorString ''unexpected end of JSON input'')))
          ''http://127.0.0.1:8080'' ''{descriptor}'')
     = Inl (WrapError ''error parsing response: '' (ErrorString ''unexpected end of JSON input''))"
proof -
  let ?w = "ex_world 422 (Inl (ErrorString ''unexpected end of JSON input''))"
  let ?info = "[''token'' \<mapsto> ''test-token'', ''registry'' \<mapsto> ''http://127.0.0.1:8080'']"
  let ?preq = "\<lparr>Method = ''POST'', URL = ''http://127.0.0.1:8080/v0/publish'',
               Header = [(''Content-Type'', ''application/json''), (''Authorization'', ''Bearer test-token'')],
               Body = ''{canonical}''\<rparr>"
  let ?vreq = "\<lparr>Method = ''POST'', URL = ''http://127.0.0.1:8080/v0/validate'',
               Header = [(''Content-Type'', ''application/json'')],
               Body = ''{canonical}''\<rparr>"
  have h1: "ReadFile ?w (publishServerFile []) = Inr ''{descriptor}''"
    by (simp add: ex_world_def publishServerFile_def)
  have h2: "UnmarshalServerJSON ?w ''{descriptor}'' = Inr ex_serverJSON"
    by (simp add: ex_world_def)
  have h3: "UserHomeDir ?w = Inr ''/home/u''"
    by (simp add: ex_world_def)
  have h4: "ReadFile ?w (Join ?w ''/home/u'' (TokenFileName ex_constants)) = Inr ''{token}''"
    by (simp add: ex_world_def ex_constants_def)
  have h5: "UnmarshalTokenInfo ?w ''{token}'' = Inr ?info"
    by (simp add: ex_world_def)
  have h6: "''test-token'' = index ?info ''token''"
    by (simp add: index_def)
  have h7: "''http://127.0.0.1:8080'' = (if index ?info ''registry'' = [] then DefaultRegistryURL ex_constants
                                          else index ?info ''registry'')"
    by (simp add: index_def)
  have h8: "publishToRegistry ?w ''http://127.0.0.1:8080'' ''{descriptor}'' ''test-token''
              = ((None, StatusUnprocessableEntity, Some (ErrorString ''server returned status 422: rejected'')), [?preq])"
    by code_simp
  have h9: "validateViaAPI ?w ''http://127.0.0.1:8080'' ''{descriptor}''
              = (Inl (WrapError ''error parsing response: '' (ErrorString ''unexpected end of JSON input'')), [?vreq])"
    by code_simp
  show ?thesis
    using publish_validate_error [OF h1 h2 h3 h4 h5 h6 h7 h8 h9] h9 by simp
qed

text \<open>
  C1, as stated, fails: with a publish attempt answered by 422 and a validate call that
  succeeds with \<open>valid = true\<close>, the command's error is the publish error wrapped as
  \<open>publish failed: ...\<close>; it is not \<open>validation failed\<close> and does not contain that text.
\<close>

theorem publish_422_valid_counterexample:
  "fst (publishToRegistry (ex_world 422 (Inr \<lparr>Valid = True, Issues = []\<rparr>))
          ''http://127.0.0.1:8080'' ''{descriptor}'' ''test-token'')
     = (None, StatusUnprocessableEntity, Some (ErrorString ''server returned status 422: rejected'')) \<and>
   fst (validateViaAPI (ex_world 422 (Inr \<lparr>Valid = True, Issues = []\<rparr>))
          ''http://127.0.0.1:8080'' ''{descriptor}'')
     = Inr \<lparr>Valid = True, Issues = []\<rparr> \<and>
   fst (PublishCommand (ex_world 422 (Inr \<lparr>Valid = True, Issues = []\<rparr>)) ex_constants [])
     = Some (WrapError ''publish failed: '' (ErrorString ''server returned status 422: rejected'')) \<and>
   \<not> Contains (Error (WrapError ''publish failed: '' (ErrorString ''server returned status 422: rejected'')))
        ''validation failed''"
  by code_simp

text \<open>
  C1, amended. In the 422 fallback, when the validate call succeeds and reports
  \<open>valid = true\<close>, the command's error is the error of the publish attempt wrapped as
  \<open>publish failed: ...\<close>.
\<close>

theorem publish_422_valid:
  assumes "ReadFile w (publishServerFile args) = Inr serverData"
    and "UnmarshalServerJSON w serverData = Inr serverJSON"
    and "UserHomeDir w = Inr homeDir"
    and "ReadFile w (Join w homeDir (TokenFileName c)) = Inr tokenData"
    and "UnmarshalTokenInfo w tokenData = Inr tokenInfo"
    and "token = index tokenInfo ''token''"
    and "registryURL = (if index tokenInfo ''registry'' = [] then DefaultRegistryURL c
                        else index tokenInfo ''registry'')"
    and "publishToRegistry w registryURL serverData token
           = ((response, StatusUnprocessableEntity, Some err), sent1)"
    and "validateViaAPI w registryURL serverData = (Inr result, sent2)"
    and "Valid result"
  shows "fst (PublishCommand w c args) = Some (WrapError ''publish failed: '' err) \<and>
         Unwrap (WrapError ''publish failed: '' err) = Some err \<and>
         Error (WrapError ''publish failed: '' err) = ''publish failed: '' @ Error err"
  using assms unfolding PublishCommand_def
  by (simp add: Let_def split: prod.splits)

theorem publish_422_valid_witness:
  "fst (PublishCommand (ex_world 422 (Inr \<lparr>Valid = True, Issues = [ex_deprecated]\<rparr>)) ex_constants [])
     = Some (WrapError ''publish failed: '' (ErrorString ''server returned status 422: rejected''))"
proof -
  let ?r = "\<lparr>Valid = True, Issues = [ex_deprecated]\<rparr>"
  let ?w = "ex_world 422 (Inr ?r)"
  let ?info = "[''token'' \<mapsto> ''test-token'', ''registry'' \<mapsto> ''http://127.0.0.1:8080'']"
  let ?preq = "\<lparr>Method = ''POST'', URL = ''http://127.0.0.1:8080/v0/publish'',
               Header = [(''Content-Type'', ''application/json''), (''Authorization'', ''Bearer test-token'')],
               Body = ''{canonical}''\<rparr>"
  let ?vreq = "\<lparr>Method = ''POST'', URL = ''http://127.0.0.1:8080/v0/validate'',
               Header = [(''Content-Type'', ''application/json'')],
               Body = ''{canonical}''\<rparr>"
  have h1: "ReadFile ?w (publishServerFile []) = Inr ''{descriptor}''"
    by (simp add: ex_world_def publishServerFile_def)
  have h2: "UnmarshalServerJSON ?w ''{descriptor}'' = Inr ex_serverJSON"
    by (simp add: ex_world_def)
  have h3: "UserHomeDir ?w = Inr ''/home/u''"
    by (simp add: ex_world_def)
  have h4: "ReadFile ?w (Join ?w ''/home/u'' (TokenFileName ex_constants)) = Inr ''{token}''"
    by (simp add: ex_world_def ex_constants_def)
  have h5: "UnmarshalTokenInfo ?w ''{token}'' = Inr ?info"
    by (simp add: ex_world_def)
  have h6: "''test-token'' = index ?info ''token''"
    by (simp add: index_def)
  have h7: "''http://127.0.0.1:8080'' = (if index ?info ''registry'' = [] then DefaultRegistryURL ex_constants
                                          else index ?info ''registry'')"
    by (simp add: index_def)
  have h8: "publishToRegistry ?w ''http://127.0.0.1:8080'' ''{descriptor}'' ''test-token''
              = ((None, StatusUnprocessableEntity, Some (ErrorString ''server returned status 422: rejected'')), [?preq])"
    by code_simp
  have h9: "validateViaAPI ?w ''http://127.0.0.1:8080'' ''{descriptor}'' = (Inr ?r, [?vreq])"
    by code_simp
  have h10: "Valid ?r" by simp
  show ?thesis
    using publish_422_valid [OF h1 h2 h3 h4 h5 h6 h7 h8 h9 h10] by simp
qed

section \<open>The formatter\<close>

lemma links_in_message:
  "Contains (pre @ clipboard @ '' Migration checklist: '' @ checklistURL @ '' '' @ open_book
               @ '' Full changelog with examples: '' @ migrationURL) ''Migration checklist:''"
  "Contains (pre @ clipboard @ '' Migration checklist: '' @ checklistURL @ '' '' @ open_book
               @ '' Full changelog with examples: '' @ migrationURL) ''Full changelog with examples:''"
proof -
  show "Contains (pre @ clipboard @ '' Migration checklist: '' @ checklistURL @ '' '' @ open_book
               @ '' Full changelog with examples: '' @ migrationURL) ''Migration checklist:''"
    by (rule ContainsI [where p = "pre @ clipboard @ '' ''"
          and q = "'' '' @ checklistURL @ '' '' @ open_book @ '' Full changelog with examples: '' @ migrationURL"])
       simp
  show "Contains (pre @ clipboard @ '' Migration checklist: '' @ checklistURL @ '' '' @ open_book
               @ '' Full changelog with examples: '' @ migrationURL) ''Full changelog with examples:''"
    by (rule ContainsI [where p = "pre @ clipboard @ '' Migration checklist: '' @ checklistURL @ '' '' @ open_book @ '' ''"
          and q = "'' '' @ migrationURL"])
       simp
qed

lemma schemaIssuesLoop_skip:
  "\<not> isSchemaIssue issue \<Longrightarrow>
     schemaIssuesLoop c serverJSON (issue # rest) = schemaIssuesLoop c serverJSON rest"
  by (simp add: isSchemaIssue_def schemaReferences_def)

lemma schemaIssuesLoop_first:
  assumes "isSchemaIssue issue"
  shows "Contains (fst (schemaIssuesLoop c serverJSON (issue # rest))) ''Migration checklist:''"
    and "Contains (fst (schemaIssuesLoop c serverJSON (issue # rest))) ''Full changelog with examples:''"
    and "Reference issue \<noteq> ''schema-field-required'' \<Longrightarrow>
           Contains (fst (schemaIssuesLoop c serverJSON (issue # rest))) (Message issue)"
    and "Reference issue = ''schema-field-required'' \<Longrightarrow>
           Contains (fst (schemaIssuesLoop c serverJSON (issue # rest))) ''$schema field is required''"
    and "fst (schemaIssuesLoop c serverJSON (issue # rest)) \<noteq> []"
proof -
  consider (req) "Reference issue = ''schema-field-required''"
    | (dep) "Reference issue = ''schema-version-deprecated''"
    | (ext) "Reference issue = ''schema-version-extraction-error''"
    using assms by (auto simp add: isSchemaIssue_def schemaReferences_def)
  note cases = this
  let ?msg = "fst (schemaIssuesLoop c serverJSON (issue # rest))"
  have req: "?msg = (''$schema field is required. Expected current schema: '' @ CurrentSchemaURL c @ ''. '')
                 @ clipboard @ '' Migration checklist: '' @ checklistURL @ '' '' @ open_book
                 @ '' Full changelog with examples: '' @ migrationURL"
    if "Reference issue = ''schema-field-required''"
    using that by simp
  have dep: "?msg = (Message issue @ ''. deprecated schema detected: '' @ Schema serverJSON
                   @ ''. Expected current schema: '' @ CurrentSchemaURL c
                   @ ''. Migrate to the current schema format for new servers. '')
                 @ clipboard @ '' Migration checklist: '' @ checklistURL @ '' '' @ open_book
                 @ '' Full changelog with examples: '' @ migrationURL"
    if "Reference issue = ''schema-version-deprecated''"
    using that by simp
  have ext: "?msg = (Message issue @ ''. '')
                 @ clipboard @ '' Migration checklist: '' @ checklistURL @ '' '' @ open_book
                 @ '' Full changelog with examples: '' @ migrationURL"
    if "Reference issue = ''schema-version-extraction-error''"
    using that by simp
  show "Contains ?msg ''Migration checklist:''"
    using cases req dep ext links_in_message(1) by (metis (no_types))
  show "Contains ?msg ''Full changelog with examples:''"
    using cases req dep ext links_in_message(2) by (metis (no_types))
  show "Contains ?msg (Message issue)" if "Reference issue \<noteq> ''schema-field-required''"
  proof -
    have "\<exists>q. ?msg = [] @ Message issue @ q"
      using cases that dep ext by (metis (no_types) append_Nil append_assoc)
    then show ?thesis using ContainsI by blast
  qed
  show "Contains ?msg ''$schema field is required''" if "Reference issue = ''schema-field-required''"
  proof -
    have "?msg = [] @ ''$schema field is required'' @ (''. Expected current schema: '' @ CurrentSchemaURL c @ ''. ''
                 @ clipboard @ '' Migration checklist: '' @ checklistURL @ '' '' @ open_book
                 @ '' Full changelog with examples: '' @ migrationURL)"
      using that by simp
    then show ?thesis by (rule ContainsI)
  qed
  show "?msg \<noteq> []"
    using cases
  proof cases
    case req
    then show ?thesis by simp
  next
    case dep
    then show ?thesis by simp
  next
    case ext
    then show ?thesis by simp
  qed
qed

lemma find_schemaIssuesLoop:
  assumes "find isSchemaIssue issues = Some issue"
  shows "\<exists>pre rest. issues = pre @ issue # rest \<and> isSchemaIssue issue \<and>
           schemaIssuesLoop c serverJSON issues = schemaIssuesLoop c serverJSON (issue # rest)"
  using assms
proof (induction issues)
  case Nil
  then show ?case by simp
next
  case (Cons a issues)
  show ?case
  proof (cases "isSchemaIssue a")
    case True
    with Cons.prems have "a = issue" by simp
    with True show ?thesis by blast
  next
    case False
    with Cons.prems have "find isSchemaIssue issues = Some issue" by simp
    then obtain pre rest where "issues = pre @ issue # rest" "isSchemaIssue issue"
      "schemaIssuesLoop c serverJSON issues = schemaIssuesLoop c serverJSON (issue # rest)"
      using Cons.IH by blast
    then have "a # issues = (a # pre) @ issue # rest \<and> isSchemaIssue issue \<and>
        schemaIssuesLoop c serverJSON (a # issues) = schemaIssuesLoop c serverJSON (issue # rest)"
      using schemaIssuesLoop_skip [OF False] by simp
    then show ?thesis by blast
  qed
qed

lemma schemaIssuesLoop_empty:
  "(fst (schemaIssuesLoop c serverJSON issues) = []) = (\<forall>issue \<in> set issues. \<not> isSchemaIssue issue)"
proof (induction issues)
  case Nil
  show ?case by simp
next
  case (Cons a issues)
  show ?case
  proof (cases "isSchemaIssue a")
    case True
    then show ?thesis using schemaIssuesLoop_first(5) [OF True] by auto
  next
    case False
    then show ?thesis using Cons.IH schemaIssuesLoop_skip [OF False] by simp
  qed
qed

lemma printValidationIssues_message:
  "fst (printValidationIssues c result serverJSON) = fst (schemaIssuesLoop c serverJSON (Issues result))"
  by (simp add: printValidationIssues_def printSchemaValidationErrors_def Let_def split: prod.splits)

text \<open>
  C3, as stated, fails: for a result whose only issue has the reference
  \<open>schema-field-required\<close> and the message \<open>name is required\<close>, the aggregated error
  string does not contain the issue's message.
\<close>

theorem schema_message_counterexample:
  "isSchemaIssue ex_required \<and>
   \<not> Contains (fst (printValidationIssues ex_constants \<lparr>Valid = False, Issues = [ex_required]\<rparr> ex_serverJSON))
        (Message ex_required)"
  by code_simp

text \<open>
  C3, amended. For every ValidationResult that contains a schema issue, the aggregated
  error string contains both \<open>Migration checklist:\<close> and \<open>Full changelog with examples:\<close>;
  it contains the message text of the first schema issue when that issue's reference is
  \<open>schema-version-deprecated\<close> or \<open>schema-version-extraction-error\<close>, and the fixed text
  \<open>$schema field is required\<close> when it is \<open>schema-field-required\<close>.
\<close>

theorem schema_message_links:
  assumes "find isSchemaIssue (Issues result) = Some issue"
  shows "Contains (fst (printValidationIssues c result serverJSON)) ''Migration checklist:'' \<and>
         Contains (fst (printValidationIssues c result serverJSON)) ''Full changelog with examples:'' \<and>
         (Reference issue \<noteq> ''schema-field-required'' \<longrightarrow>
            Contains (fst (printValidationIssues c result serverJSON)) (Message issue)) \<and>
         (Reference issue = ''schema-field-required'' \<longrightarrow>
            Contains (fst (printValidationIssues c result serverJSON)) ''$schema field is required'')"
proof -
  obtain pre rest where schema: "isSchemaIssue issue"
    and loop: "schemaIssuesLoop c serverJSON (Issues result) = schemaIssuesLoop c serverJSON (issue # rest)"
    using find_schemaIssuesLoop [OF assms] by blast
  have "fst (printValidationIssues c result serverJSON) = fst (schemaIssuesLoop c serverJSON (issue # rest))"
    using loop by (simp add: printValidationIssues_message)
  then show ?thesis
    using schemaIssuesLoop_first(1-4) [OF schema, of c serverJSON rest] by simp
qed

theorem schema_message_links_witness:
  "Contains (fst (printValidationIssues ex_constants \<lparr>Valid = False, Issues = [ex_range, ex_deprecated]\<rparr> ex_serverJSON))
     ''Migration checklist:'' \<and>
   Contains (fst (printValidationIssues ex_constants \<lparr>Valid = False, Issues = [ex_range, ex_deprecated]\<rparr> ex_serverJSON))
     ''Full changelog with examples:'' \<and>
   Contains (fst (printValidationIssues ex_constants \<lparr>Valid = False, Issues = [ex_range, ex_deprecated]\<rparr> ex_serverJSON))
     ''schema version 2025-07-09 is not the current version''"
proof -
  have h: "find isSchemaIssue (Issues \<lparr>Valid = False, Issues = [ex_range, ex_deprecated]\<rparr>) = Some ex_deprecated"
    by code_simp
  have r: "Reference ex_deprecated \<noteq> ''schema-field-required''"
    by (simp add: ex_deprecated_def)
  have m: "Message ex_deprecated = ''schema version 2025-07-09 is not the current version''"
    by (simp add: ex_deprecated_def)
  show ?thesis
    using schema_message_links [OF h, of ex_constants ex_serverJSON] r m by simp
qed

text \<open>
  C6, as stated, fails: for a result with \<open>valid = true\<close> that carries a deprecation
  warning, the string the formatter returns is not empty.
\<close>

theorem valid_result_counterexample:
  "Valid \<lparr>Valid = True, Issues = [ex_deprecated]\<rparr> \<and>
   fst (printValidationIssues ex_constants \<lparr>Valid = True, Issues = [ex_deprecated]\<rparr> ex_serverJSON) \<noteq> []"
  by code_simp

text \<open>
  C6, amended. For every ValidationResult with \<open>valid = true\<close>, the formatter runs only
  the first pass: its output and the string it returns are those of
  \<open>printSchemaValidationErrors\<close>. That string is empty exactly when the result holds no
  schema issue.
\<close>

theorem valid_result_first_pass_only:
  assumes "Valid result"
  shows "printValidationIssues c result serverJSON = printSchemaValidationErrors c result serverJSON \<and>
         (fst (printValidationIssues c result serverJSON) = []) =
           (\<forall>issue \<in> set (Issues result). \<not> isSchemaIssue issue)"
proof -
  have "printValidationIssues c result serverJSON = printSchemaValidationErrors c result serverJSON"
    using assms by (simp add: printValidationIssues_def Let_def split: prod.splits)
  then show ?thesis
    by (simp add: printSchemaValidationErrors_def schemaIssuesLoop_empty)
qed

theorem valid_result_first_pass_only_witness:
  "printValidationIssues ex_constants \<lparr>Valid = True, Issues = [ex_range]\<rparr> ex_serverJSON
     = printSchemaValidationErrors ex_constants \<lparr>Valid = True, Issues = [ex_range]\<rparr> ex_serverJSON \<and>
   fst (printValidationIssues ex_constants \<lparr>Valid = True, Issues = [ex_range]\<rparr> ex_serverJSON) = []"
proof -
  have h: "Valid \<lparr>Valid = True, Issues = [ex_range]\<rparr>" by simp
  have n: "\<forall>issue \<in> set (Issues \<lparr>Valid = True, Issues = [ex_range]\<rparr>). \<not> isSchemaIssue issue"
    by code_simp
  from valid_result_first_pass_only [OF h, of ex_constants ex_serverJSON] n
  show ?thesis by blast
qed

lemma otherIssuesLoop_numbered:
  "otherIssuesLoop n issues =
     concat (map (\<lambda>(k, issue). numberedEntry k issue)
       (zip [n ..< n + length (filter (\<lambda>issue. \<not> printedByFirstPass issue) issues)]
            (filter (\<lambda>issue. \<not> printedByFirstPass issue) issues)))"
proof (induction issues arbitrary: n)
  case Nil
  show ?case by simp
next
  case (Cons a issues)
  let ?others = "filter (\<lambda>issue. \<not> printedByFirstPass issue) issues"
  show ?case
  proof (cases "printedByFirstPass a")
    case True
    have loop: "otherIssuesLoop n (a # issues) = otherIssuesLoop n issues"
      using True by (simp add: printedByFirstPass_def)
    have others: "filter (\<lambda>issue. \<not> printedByFirstPass issue) (a # issues) = ?others"
      using True by simp
    show ?thesis
      unfolding loop others by (rule Cons.IH)
  next
    case False
    have loop: "otherIssuesLoop n (a # issues) = numberedEntry n a @ otherIssuesLoop (Suc n) issues"
      using False by (simp add: printedByFirstPass_def numberedEntry_def)
    have others: "filter (\<lambda>issue. \<not> printedByFirstPass issue) (a # issues) = a # ?others"
      using False by simp
    have upt: "[n ..< n + length (a # ?others)] = n # [Suc n ..< Suc n + length ?others]"
      by (simp add: upt_conv_Cons del: upt_Suc)
    show ?thesis
      unfolding loop others upt using Cons.IH [of "Suc n"] by simp
  qed
qed

text \<open>
  C5, as stated, fails: an issue with the reference \<open>schema-version-extraction-error\<close> is
  a schema issue that the first pass turns into the aggregated error, and the second pass
  still renders it as entry 1 of the numbered list.
\<close>

theorem second_pass_counterexample:
  "isSchemaIssue ex_extraction \<and>
   fst (printSchemaValidationErrors ex_constants \<lparr>Valid = False, Issues = [ex_extraction]\<rparr> ex_serverJSON) \<noteq> [] \<and>
   otherIssuesLoop 1 [ex_extraction] =
     [''1. [error] schema (schema)'' @ nl,
      ''   failed to extract schema version from URL'' @ nl,
      ''   Reference: schema-version-extraction-error'' @ nl,
      nl]"
  by code_simp

text \<open>
  C5, amended. In the second pass, every issue whose reference is
  \<open>schema-field-required\<close> or \<open>schema-version-deprecated\<close> (the issues for which the
  first pass writes to standard output) is left out of the numbered list; every other
  issue, those with the reference \<open>schema-version-extraction-error\<close> included, is
  rendered as one entry, numbered consecutively from 1 in the order of the result, showing
  severity, path, type, message, and the reference code if present.
\<close>

theorem second_pass_numbered_list:
  assumes "\<not> Valid result"
  shows "snd (printValidationIssues c result serverJSON) =
           snd (printSchemaValidationErrors c result serverJSON)
           @ [cross_mark @ '' Validation failed with '' @ fmt_d (int (length (Issues result)))
                @ '' issue(s):'' @ nl, nl]
           @ numberedList (filter (\<lambda>issue. \<not> printedByFirstPass issue) (Issues result))"
  using assms otherIssuesLoop_numbered [of 1 "Issues result"]
  by (simp add: printValidationIssues_def numberedList_def Let_def split: prod.splits)

theorem second_pass_numbered_list_witness:
  "snd (printValidationIssues ex_constants \<lparr>Valid = False, Issues = [ex_required, ex_range, ex_extraction]\<rparr> ex_serverJSON) =
     snd (printSchemaValidationErrors ex_constants \<lparr>Valid = False, Issues = [ex_required, ex_range, ex_extraction]\<rparr> ex_serverJSON)
     @ [cross_mark @ '' Validation failed with 3 issue(s):'' @ nl, nl]
     @ numberedEntry 1 ex_range @ numberedEntry 2 ex_extraction"
proof -
  let ?r = "\<lparr>Valid = False, Issues = [ex_required, ex_range, ex_extraction]\<rparr>"
  have h: "\<not> Valid ?r" by simp
  have f: "filter (\<lambda>issue. \<not> printedByFirstPass issue) (Issues ?r) = [ex_range, ex_extraction]"
    by code_simp
  have n: "numberedList [ex_range, ex_extraction] = numberedEntry 1 ex_range @ numberedEntry 2 ex_extraction"
    by (simp add: numberedList_def upt_conv_Cons numeral_2_eq_2)
  have d: "fmt_d (int (length (Issues ?r))) = ''3''"
    by code_simp
  show ?thesis
    using second_pass_numbered_list [OF h, of ex_constants ex_serverJSON] f n d by simp
qed

section \<open>The 422 fallback\<close>

text \<open>
  C2, as stated, fails in its second half: with a publish attempt answered by 422 and a
  validation result whose first issue is a version-range issue, followed by a
  \<open>schema-field-required\<close> issue, the validate endpoint is called once after the publish
  endpoint, and the final error does not contain the message of the first issue.
\<close>

theorem fallback_first_issue_counterexample:
  "map URL (snd (snd (PublishCommand
       (ex_world 422 (Inr \<lparr>Valid = False, Issues = [ex_range, ex_required]\<rparr>)) ex_constants [])))
     = [''http://127.0.0.1:8080/v0/publish'', ''http://127.0.0.1:8080/v0/validate''] \<and>
   \<not> Contains (Error (the (fst (PublishCommand
       (ex_world 422 (Inr \<lparr>Valid = False, Issues = [ex_range, ex_required]\<rparr>)) ex_constants []))))
     (Message (hd [ex_range, ex_required]))"
  by code_simp

text \<open>
  C2, amended. For every descriptor whose publish attempt returns HTTP 422 (and for which
  the validate request can be constructed), the validate endpoint is called exactly once
  afterward: the command hands two requests to the HTTP client, the publish request and
  then the validate request. When the validate call returns a result with
  \<open>valid = false\<close> whose first issue has the reference \<open>schema-version-deprecated\<close> or
  \<open>schema-version-extraction-error\<close>, the final error contains the message text of
  that issue.
\<close>

theorem fallback_validate_once:
  assumes "ReadFile w (publishServerFile args) = Inr serverData"
    and "UnmarshalServerJSON w serverData = Inr serverJSON"
    and "UserHomeDir w = Inr homeDir"
    and "ReadFile w (Join w homeDir (TokenFileName c)) = Inr tokenData"
    and "UnmarshalTokenInfo w tokenData = Inr tokenInfo"
    and "token = index tokenInfo ''token''"
    and "registryURL = (if index tokenInfo ''registry'' = [] then DefaultRegistryURL c
                        else index tokenInfo ''registry'')"
    and pub: "publishToRegistry w registryURL serverData token
                = ((response, StatusUnprocessableEntity, Some err), sent1)"
    and newreq: "NewRequestError w (endpointURL registryURL ''v0/validate'') = None"
  shows "(\<exists>preq vreq. snd (snd (PublishCommand w c args)) = [preq, vreq] \<and>
            URL preq = endpointURL registryURL ''v0/publish'' \<and>
            URL vreq = endpointURL registryURL ''v0/validate'') \<and>
         (\<forall>result issue rest.
            fst (validateViaAPI w registryURL serverData) = Inr result \<and> \<not> Valid result \<and>
            Issues result = issue # rest \<and>
            (Reference issue = ''schema-version-deprecated'' \<or>
             Reference issue = ''schema-version-extraction-error'')
            \<longrightarrow> (\<exists>e. fst (PublishCommand w c args) = Some e \<and> Contains (Error e) (Message issue)))"
proof -
  have received: "StatusUnprocessableEntity \<noteq> 0" by simp
  obtain sj jsonData preq where sj: "UnmarshalServerJSON w serverData = Inr sj"
    and marshal: "MarshalServerJSON w sj = Inr jsonData"
    and sent1: "sent1 = [preq]" and preq: "URL preq = endpointURL registryURL ''v0/publish''"
    using publishToRegistry_status [OF pub received] by auto
  obtain vreq where sent2: "snd (validateViaAPI w registryURL serverData) = [vreq]"
    and vreq: "URL vreq = endpointURL registryURL ''v0/validate''"
    using validateViaAPI_called [OF sj marshal newreq] by simp
  obtain v where val: "validateViaAPI w registryURL serverData = (v, [vreq])"
    using sent2 by (cases "validateViaAPI w registryURL serverData") simp
  have sent: "snd (snd (PublishCommand w c args)) = [preq, vreq]"
    using assms(1-7) pub val sent1 unfolding PublishCommand_def
    by (simp add: Let_def split: sum.splits prod.splits)
  have msg: "\<exists>e. fst (PublishCommand w c args) = Some e \<and> Contains (Error e) (Message issue)"
    if v: "v = Inr result" and invalid: "\<not> Valid result" and first: "Issues result = issue # rest"
      and ref: "Reference issue = ''schema-version-deprecated'' \<or>
                Reference issue = ''schema-version-extraction-error''"
    for result issue rest
  proof -
    have schema: "isSchemaIssue issue"
      using ref by (auto simp add: isSchemaIssue_def schemaReferences_def)
    have nonreq: "Reference issue \<noteq> ''schema-field-required''"
      using ref by auto
    obtain msg out where report: "printValidationIssues c result serverJSON = (msg, out)"
      by (cases "printValidationIssues c result serverJSON") simp
    have m: "msg = fst (schemaIssuesLoop c serverJSON (issue # rest))"
      using first report printValidationIssues_message [of c result serverJSON] by simp
    have nonempty: "msg \<noteq> []"
      using m schemaIssuesLoop_first(5) [OF schema, of c serverJSON rest] by simp
    have contains: "Contains msg (Message issue)"
      using m schemaIssuesLoop_first(3) [OF schema nonreq, of c serverJSON rest] by simp
    have "fst (PublishCommand w c args) = Some (ErrorString msg)"
      using assms(1-7) pub val v invalid nonempty unfolding PublishCommand_def
      by (simp add: Let_def report)
    with contains show ?thesis by simp
  qed
  show ?thesis
    using sent preq vreq msg val by auto
qed

theorem fallback_validate_once_witness:
  "(\<exists>preq vreq. snd (snd (PublishCommand
        (ex_world 422 (Inr \<lparr>Valid = False, Issues = [ex_deprecated]\<rparr>)) ex_constants [])) = [preq, vreq] \<and>
      URL preq = endpointURL ''http://127.0.0.1:8080'' ''v0/publish'' \<and>
      URL vreq = endpointURL ''http://127.0.0.1:8080'' ''v0/validate'') \<and>
   (\<exists>e. fst (PublishCommand
        (ex_world 422 (Inr \<lparr>Valid = False, Issues = [ex_deprecated]\<rparr>)) ex_constants []) = Some e \<and>
      Contains (Error e) ''schema version 2025-07-09 is not the current version'')"
proof -
  let ?r = "\<lparr>Valid = False, Issues = [ex_deprecated]\<rparr>"
  let ?w = "ex_world 422 (Inr ?r)"
  let ?info = "[''token'' \<mapsto> ''test-token'', ''registry'' \<mapsto> ''http://127.0.0.1:8080'']"
  let ?preq = "\<lparr>Method = ''POST'', URL = ''http://127.0.0.1:8080/v0/publish'',
               Header = [(''Content-Type'', ''application/json''), (''Authorization'', ''Bearer test-token'')],
               Body = ''{canonical}''\<rparr>"
  have h1: "ReadFile ?w (publishServerFile []) = Inr ''{descriptor}''"
    by (simp add: ex_world_def publishServerFile_def)
  have h2: "UnmarshalServerJSON ?w ''{descriptor}'' = Inr ex_serverJSON"
    by (simp add: ex_world_def)
  have h3: "UserHomeDir ?w = Inr ''/home/u''"
    by (simp add: ex_world_def)
  have h4: "ReadFile ?w (Join ?w ''/home/u'' (TokenFileName ex_constants)) = Inr ''{token}''"
    by (simp add: ex_world_def ex_constants_def)
  have h5: "UnmarshalTokenInfo ?w ''{token}'' = Inr ?info"
    by (simp add: ex_world_def)
  have h6: "''test-token'' = index ?info ''token''"
    by (simp add: index_def)
  have h7: "''http://127.0.0.1:8080'' = (if index ?info ''registry'' = [] then DefaultRegistryURL ex_constants
                                          else index ?info ''registry'')"
    by (simp add: index_def)
  have h8: "publishToRegistry ?w ''http://127.0.0.1:8080'' ''{descriptor}'' ''test-token''
              = ((None, StatusUnprocessableEntity, Some (ErrorString ''server returned status 422: rejected'')), [?preq])"
    by code_simp
  have h9: "NewRequestError ?w (endpointURL ''http://127.0.0.1:8080'' ''v0/validate'') = None"
    by (simp add: ex_world_def)
  have v: "fst (validateViaAPI ?w ''http://127.0.0.1:8080'' ''{descriptor}'') = Inr ?r \<and> \<not> Valid ?r \<and>
           Issues ?r = ex_deprecated # [] \<and>
           (Reference ex_deprecated = ''schema-version-deprecated'' \<or>
            Reference ex_deprecated = ''schema-version-extraction-error'')"
    by code_simp
  have m: "Message ex_deprecated = ''schema version 2025-07-09 is not the current version''"
    by (simp add: ex_deprecated_def)
  from fallback_validate_once [OF h1 h2 h3 h4 h5 h6 h7 h8 h9] v m
  show ?thesis by metis
qed

section \<open>The validate command\<close>



end
